theory Spec2Isabelle
  imports Main "HOL-Library.AList"
begin

section \<open>Strings as the front end handles them\<close>

text \<open>
  The front end is TypeScript; its strings are sequences of code units. They are modelled
  as \<^typ>\<open>string\<close>, one \<^typ>\<open>char\<close> per code unit. Letters and digits are those of
  the ASCII range: HTTP methods, paths and tool names are ASCII in an OpenAPI document.
\<close>

definition asciiUpper :: string where
  "asciiUpper = ''ABCDEFGHIJKLMNOPQRSTUVWXYZ''"

definition asciiLower :: string where
  "asciiLower = ''abcdefghijklmnopqrstuvwxyz''"

definition asciiDigit :: string where
  "asciiDigit = ''0123456789''"

text \<open>\<^verbatim>\<open>String.prototype.toLowerCase\<close>, on the ASCII letters.\<close>

definition toLowerCaseChar :: "char \<Rightarrow> char" where
  "toLowerCaseChar c =
     (case map_of (zip asciiUpper asciiLower) c of Some l \<Rightarrow> l | None \<Rightarrow> c)"

definition toLowerCase :: "string \<Rightarrow> string" where
  "toLowerCase s = map toLowerCaseChar s"

text \<open>
  The character class \<^verbatim>\<open>[a-z0-9]\<close> under the flag \<^verbatim>\<open>i\<close>: the flag makes the
  class match the upper-case letters as well.
\<close>

definition isAlnum :: "char \<Rightarrow> bool" where
  "isAlnum c = (c \<in> set (asciiLower @ asciiUpper @ asciiDigit))"

text \<open>\<^verbatim>\<open>path.replace(/[^a-z0-9]/gi, '_')\<close>: every code unit outside the class becomes an underscore.\<close>

definition replaceNonAlnum :: "string \<Rightarrow> string" where
  "replaceNonAlnum s = map (\<lambda>c. if isAlnum c then c else CHR ''_'') s"

text \<open>
  \<^verbatim>\<open>String.prototype.trim\<close> removes white space and line terminators from both ends.
  Among the code units up to 255 these are tab, line feed, vertical tab, form feed, carriage
  return, space and the no-break space.
\<close>

definition isWhiteSpace :: "char \<Rightarrow> bool" where
  "isWhiteSpace c = ((of_char c :: nat) \<in> {9, 10, 11, 12, 13, 32, 160})"

definition trim :: "string \<Rightarrow> string" where
  "trim s = rev (dropWhile isWhiteSpace (rev (dropWhile isWhiteSpace s)))"

text \<open>\<^verbatim>\<open>Array.prototype.join\<close> on strings.\<close>

fun join :: "string \<Rightarrow> string list \<Rightarrow> string" where
  "join sep [] = []"
| "join sep [x] = x"
| "join sep (x # y # ys) = x @ sep @ join sep (y # ys)"

text \<open>
  JavaScript truthiness of a \<^verbatim>\<open>string | null\<close> or \<^verbatim>\<open>string | undefined\<close>: the missing
  value and the empty string are falsy.
\<close>

fun truthy :: "string option \<Rightarrow> bool" where
  "truthy None = False"
| "truthy (Some s) = (s \<noteq> [])"

text \<open>\<^verbatim>\<open>a || b\<close> where \<open>a\<close> may be missing and \<open>b\<close> is a string.\<close>

fun orElse :: "string option \<Rightarrow> string \<Rightarrow> string" where
  "orElse None d = d"
| "orElse (Some s) d = (if s = [] then d else s)"

text \<open>\<^verbatim>\<open>value || undefined\<close> and \<^verbatim>\<open>value || null\<close> on a string.\<close>

definition orUndefined :: "string \<Rightarrow> string option" where
  "orUndefined s = (if s = [] then None else Some s)"

text \<open>
  A rejected request. The pages read \<^verbatim>\<open>error?.response?.data?.detail\<close> and
  \<^verbatim>\<open>error.message\<close>, each possibly missing.
\<close>

record ApiError =
  detail :: "string option"
  error_message :: "string option"

section \<open>Endpoint configuration (types/endpoint.ts)\<close>

datatype location = Path | Query | Header | Cookie

text \<open>
  \<^verbatim>\<open>ParameterConfigItem\<close>: \<open>required\<close> is the original flag from the API description,
  \<open>user_required\<close> is the user's choice. The field \<^verbatim>\<open>type\<close> is \<open>ptype\<close> here.
\<close>

record ParameterConfigItem =
  name :: string
  ptype :: string
  location :: location
  description :: string
  required :: bool
  user_required :: bool
  deprecated :: bool

text \<open>
  The four fields that a user edits are shared by \<^verbatim>\<open>EndpointConfigWithDetails\<close> and
  \<^verbatim>\<open>EndpointConfigBatchUpdate\<close>; a field of type \<^verbatim>\<open>string | null\<close> is an option.
\<close>

record EndpointOverrides =
  is_selected :: bool
  mcp_tool_name :: "string option"
  mcp_description :: "string option"
  parameter_configurations :: "ParameterConfigItem list option"

record EndpointConfig = EndpointOverrides +
  id :: string
  http_method :: string
  path :: string

record EndpointConfigBatchUpdate = EndpointOverrides +
  endpoint_id :: string

subsection \<open>EndpointCard and ParameterConfig\<close>

text \<open>
  The name offered when \<^verbatim>\<open>mcp_tool_name\<close> is unset:
  \<^verbatim>\<open>`${endpoint.http_method.toLowerCase()}_${endpoint.path.replace(/[^a-z0-9]/gi, '_')}`\<close>.
\<close>

definition placeholderToolName :: "string \<Rightarrow> string \<Rightarrow> string" where
  "placeholderToolName m p = toLowerCase m @ ''_'' @ replaceNonAlnum p"

text \<open>
  What the tool-name field shows: the value \<^verbatim>\<open>endpoint.mcp_tool_name || ''\<close>, and the
  placeholder when that value is empty.
\<close>

definition toolNameShown :: "EndpointConfig \<Rightarrow> string" where
  "toolNameShown e =
     (case mcp_tool_name e of
        None \<Rightarrow> placeholderToolName (http_method e) (path e)
      | Some n \<Rightarrow> if n = [] then placeholderToolName (http_method e) (path e) else n)"



text \<open>The "mandatory" check box of ParameterConfig and the sentence printed under it.\<close>

definition onCheckedChange :: "ParameterConfigItem \<Rightarrow> bool \<Rightarrow> ParameterConfigItem" where
  "onCheckedChange parameter checked = parameter\<lparr>user_required := checked\<rparr>"

definition mandatoryText :: "ParameterConfigItem \<Rightarrow> string" where
  "mandatoryText parameter =
     (if user_required parameter
      then ''This parameter will be required in the generated MCP tool''
      else ''This parameter will be optional in the generated MCP tool'')"

text \<open>
  \<^verbatim>\<open>handleParameterChange\<close> replaces, by name, the parameter that changed;
  \<^verbatim>\<open>updatedParams || null\<close> keeps a missing list missing.
\<close>

definition handleParameterChange :: "EndpointConfig \<Rightarrow> ParameterConfigItem \<Rightarrow> EndpointConfig" where
  "handleParameterChange endpoint updatedParam =
     endpoint\<lparr>parameter_configurations :=
       (case parameter_configurations endpoint of
          None \<Rightarrow> None
        | Some ps \<Rightarrow> Some (map (\<lambda>param. if name param = name updatedParam then updatedParam
                                       else param) ps))\<rparr>"

subsection \<open>EndpointSelectionPage: saving the configuration\<close>

text \<open>
  What \<^verbatim>\<open>handleSave\<close> does to the outside: the batch updates it posts, the alerts it
  raises, and the flag \<open>hasChanges\<close>.
\<close>

record SaveRun =
  posted :: "EndpointConfigBatchUpdate list list"
  alerts :: "string list"
  hasChanges :: bool

definition toBatchUpdate :: "EndpointConfig \<Rightarrow> EndpointConfigBatchUpdate" where
  "toBatchUpdate config =
     \<lparr>is_selected = is_selected config, mcp_tool_name = mcp_tool_name config,
      mcp_description = mcp_description config,
      parameter_configurations = parameter_configurations config,
      endpoint_id = id config\<rparr>"

definition endpointLabel :: "EndpointConfig \<Rightarrow> string" where
  "endpointLabel c = http_method c @ '' '' @ path c"

definition descriptionAlert :: "EndpointConfig list \<Rightarrow> string" where
  "descriptionAlert selectedWithoutDesc =
     ''Please provide descriptions for all selected endpoints:'' @ [CHR 0x0A, CHR 0x0A]
       @ join '', '' (map endpointLabel selectedWithoutDesc)"

definition saveErrorMessage :: "ApiError \<Rightarrow> string" where
  "saveErrorMessage e =
     orElse (detail e) ''Failed to save configurations. Please try again.''"

text \<open>
  \<^verbatim>\<open>handleSave\<close>. The request \<^verbatim>\<open>batchUpdate.mutateAsync\<close> is the parameter
  \<open>batchUpdate\<close>; it answers \<open>None\<close> when the request resolves and the error when it is
  rejected.
\<close>

definition handleSave ::
  "(string \<Rightarrow> EndpointConfigBatchUpdate list \<Rightarrow> ApiError option) \<Rightarrow> string option \<Rightarrow>
   EndpointConfig list \<Rightarrow> SaveRun \<Rightarrow> SaveRun" where
  "handleSave batchUpdate specId localConfigs r =
     (case specId of
        None \<Rightarrow> r
      | Some sid \<Rightarrow>
          if sid = [] then r
          else
            let selectedWithoutDesc =
                  filter (\<lambda>c. is_selected c \<and> \<not> truthy (mcp_description c)) localConfigs
            in if length selectedWithoutDesc > 0
               then r\<lparr>alerts := alerts r @ [descriptionAlert selectedWithoutDesc]\<rparr>
               else
                 let updates = map toBatchUpdate localConfigs;
                     r' = r\<lparr>posted := posted r @ [updates]\<rparr>
                 in case batchUpdate sid updates of
                      None \<Rightarrow> r'\<lparr>hasChanges := False\<rparr>
                    | Some e \<Rightarrow> r'\<lparr>alerts := alerts r' @ [saveErrorMessage e]\<rparr>)"



subsection \<open>The default tool name in the specification's words\<close>

text \<open>Method, underscore, sanitised path, the whole lower-cased.\<close>

definition specDefaultToolName :: "string \<Rightarrow> string \<Rightarrow> string" where
  "specDefaultToolName m p = toLowerCase (m @ ''_'' @ replaceNonAlnum p)"

text \<open>The identifier grammar \<^verbatim>\<open>[a-zA-Z_][a-zA-Z0-9_]*\<close>.\<close>

definition isIdentStart :: "char \<Rightarrow> bool" where
  "isIdentStart c = (c \<in> set (asciiLower @ asciiUpper) \<or> c = CHR ''_'')"

definition isIdentChar :: "char \<Rightarrow> bool" where
  "isIdentChar c = (isAlnum c \<or> c = CHR ''_'')"


definition hasNoUpper :: "string \<Rightarrow> bool" where
  "hasNoUpper s = list_all (\<lambda>c. c \<notin> set asciiUpper) s"

section \<open>The AI testing page (AITestingPage)\<close>

text \<open>Values of type \<^verbatim>\<open>any\<close>: the conversation history and the tool results are JSON.\<close>

datatype json =
  JNull | JBool bool | JNum int | JStr string | JArr "json list" | JObj "(string \<times> json) list"

subsection \<open>The requests and responses of hooks/useAITesting\<close>

record ToolCall =
  call_id :: string
  call_name :: string
  input :: json

record Usage =
  input_tokens :: int
  output_tokens :: int

datatype provider = Anthropic | OpenAI

text \<open>The fields that \<^verbatim>\<open>TestMessageRequest\<close> and \<^verbatim>\<open>ToolExecutionRequest\<close> share.\<close>

record RequestCommon =
  conversation_history :: "json list"
  provider :: provider
  model :: string
  api_key :: "string option"
  base_url :: "string option"
  server_ids :: "string list"
  authorization :: "string option"

record TestMessageRequest = RequestCommon +
  message :: string

record ToolExecutionRequest = RequestCommon +
  tool_call :: ToolCall

text \<open>
  The fields that \<^verbatim>\<open>TestMessageResponse\<close> and \<^verbatim>\<open>ToolExecutionResponse\<close> share; the
  history a response carries is \<open>new_history\<close> here (\<^verbatim>\<open>conversation_history\<close> in the
  source).
\<close>

record ResponseCommon =
  response :: string
  new_history :: "json list"
  stop_reason :: string
  usage :: Usage

record TestMessageResponse = ResponseCommon +
  tool_calls :: "ToolCall list"
  requires_tool_execution :: bool

record ToolExecutionResponse = ResponseCommon +
  tool_execution_result :: json
  additional_tool_calls :: "ToolCall list"

subsection \<open>The page\<close>

datatype role = User | Assistant

text \<open>\<^verbatim>\<open>Message\<close>; the optional field \<^verbatim>\<open>usage\<close> is \<open>tokens\<close> here.\<close>

record Message =
  role :: role
  content :: string
  toolCalls :: "ToolCall list option"
  toolResults :: "json list option"
  tokens :: "Usage option"

text \<open>
  The state of the page that \<^verbatim>\<open>handleSendMessage\<close> reads and writes. The state variables
  \<^verbatim>\<open>provider\<close> and \<^verbatim>\<open>authorization\<close> are \<open>providerChoice\<close> and \<open>authorizationInput\<close>
  here.
\<close>

record Page =
  selectedServerIds :: "string list"
  messages :: "Message list"
  inputMessage :: string
  conversationHistory :: "json list"
  providerChoice :: provider
  anthropicModel :: string
  anthropicApiKey :: string
  openaiModel :: string
  openaiApiKey :: string
  openaiBaseUrl :: string
  authorizationInput :: string

text \<open>
  The two requests go to the back end, which is not part of the page: it is a parameter,
  a pair of functions on a state \<open>'b\<close> of its own. A request resolves (\<open>Inr\<close>) or is
  rejected (\<open>Inl\<close>); a request that never answers is outside this model.
\<close>

type_synonym 'b testWithAI =
  "'b \<Rightarrow> string \<Rightarrow> TestMessageRequest \<Rightarrow> (ApiError + TestMessageResponse) \<times> 'b"

type_synonym 'b executeTool =
  "'b \<Rightarrow> string \<Rightarrow> ToolExecutionRequest \<Rightarrow> (ApiError + ToolExecutionResponse) \<times> 'b"

text \<open>The requests a run has sent, each with the server id of its URL.\<close>

datatype request =
  PostTest string TestMessageRequest
| PostExecuteTool string ToolExecutionRequest

record 'b run =
  backend :: 'b
  page :: Page
  sent :: "request list"

subsection \<open>handleSendMessage\<close>

text \<open>\<^verbatim>\<open>selectedServerIds[0] || ''\<close>, the server id in the URL of both requests.\<close>

definition primaryServerId :: "Page \<Rightarrow> string" where
  "primaryServerId p = (case selectedServerIds p of [] \<Rightarrow> [] | sid # _ \<Rightarrow> sid)"

definition modelOf :: "Page \<Rightarrow> string" where
  "modelOf p = (if providerChoice p = OpenAI then openaiModel p else anthropicModel p)"

definition apiKeyOf :: "Page \<Rightarrow> string option" where
  "apiKeyOf p =
     (if providerChoice p = OpenAI then orUndefined (openaiApiKey p)
      else orUndefined (anthropicApiKey p))"

definition baseUrlOf :: "Page \<Rightarrow> string option" where
  "baseUrlOf p = (if providerChoice p = OpenAI then Some (openaiBaseUrl p) else None)"

definition testRequest :: "Page \<Rightarrow> TestMessageRequest" where
  "testRequest p =
     \<lparr>conversation_history = conversationHistory p, provider = providerChoice p,
      model = modelOf p, api_key = apiKeyOf p, base_url = baseUrlOf p,
      server_ids = selectedServerIds p, authorization = orUndefined (authorizationInput p),
      message = inputMessage p\<rparr>"

text \<open>
  The request for one tool call. Its history is \<^verbatim>\<open>result.conversation_history\<close>, the
  history of the response that asked for the tools, for every call of the loop.
\<close>

definition toolRequest :: "Page \<Rightarrow> TestMessageResponse \<Rightarrow> ToolCall \<Rightarrow> ToolExecutionRequest" where
  "toolRequest p result toolCall =
     \<lparr>conversation_history = new_history result, provider = providerChoice p,
      model = modelOf p, api_key = apiKeyOf p, base_url = baseUrlOf p,
      server_ids = selectedServerIds p, authorization = orUndefined (authorizationInput p),
      tool_call = toolCall\<rparr>"

definition userMessage :: "Page \<Rightarrow> Message" where
  "userMessage p =
     \<lparr>role = User, content = inputMessage p, toolCalls = None, toolResults = None,
      tokens = None\<rparr>"

definition assistantMessage :: "TestMessageResponse \<Rightarrow> Message" where
  "assistantMessage result =
     \<lparr>role = Assistant,
      content = (if response result = [] then ''(Tool calls in progress...)''
                 else response result),
      toolCalls = Some (tool_calls result), toolResults = None,
      tokens = Some (usage result)\<rparr>"

definition finalMessage :: "ToolExecutionResponse \<Rightarrow> Message" where
  "finalMessage toolResult =
     \<lparr>role = Assistant, content = response toolResult, toolCalls = None,
      toolResults = Some [tool_execution_result toolResult],
      tokens = Some (usage toolResult)\<rparr>"

text \<open>
  The \<^verbatim>\<open>catch\<close> block:
  \<^verbatim>\<open>`Error: ${error?.response?.data?.detail || error.message || 'Failed to communicate with AI'}`\<close>.
\<close>

definition errorMessage :: "ApiError \<Rightarrow> Message" where
  "errorMessage e =
     \<lparr>role = Assistant,
      content = ''Error: '' @ orElse (detail e)
                  (orElse (error_message e) ''Failed to communicate with AI''),
      toolCalls = None, toolResults = None, tokens = None\<rparr>"

definition addMessage :: "Message \<Rightarrow> 'b run \<Rightarrow> 'b run" where
  "addMessage m r = r\<lparr>page := (page r)\<lparr>messages := messages (page r) @ [m]\<rparr>\<rparr>"

definition setConversationHistory :: "json list \<Rightarrow> 'b run \<Rightarrow> 'b run" where
  "setConversationHistory h r = r\<lparr>page := (page r)\<lparr>conversationHistory := h\<rparr>\<rparr>"

text \<open>
  The loop \<^verbatim>\<open>for (const toolCall of result.tool_calls)\<close>. Each turn awaits one
  execute-tool request; a rejected request throws, which leaves the loop with the error
  (\<open>Some e\<close>) for the \<^verbatim>\<open>catch\<close> block. The field \<^verbatim>\<open>additional_tool_calls\<close> of the
  response is not read.
\<close>

fun executeTools ::
  "'b executeTool \<Rightarrow> string \<Rightarrow> (ToolCall \<Rightarrow> ToolExecutionRequest) \<Rightarrow> ToolCall list \<Rightarrow>
   'b run \<Rightarrow> ApiError option \<times> 'b run" where
  "executeTools ex sid mk [] r = (None, r)"
| "executeTools ex sid mk (toolCall # rest) r =
     (let req = mk toolCall;
          (res, b) = ex (backend r) sid req;
          r' = r\<lparr>backend := b, sent := sent r @ [PostExecuteTool sid req]\<rparr>
      in case res of
           Inl e \<Rightarrow> (Some e, r')
         | Inr toolResult \<Rightarrow>
             executeTools ex sid mk rest
               (addMessage (finalMessage toolResult)
                  (setConversationHistory (new_history toolResult) r')))"

definition handleSendMessage :: "'b testWithAI \<Rightarrow> 'b executeTool \<Rightarrow> 'b run \<Rightarrow> 'b run" where
  "handleSendMessage tw ex r =
     (let p = page r in
      if trim (inputMessage p) = [] \<or> length (selectedServerIds p) = 0 then r
      else
        let sid = primaryServerId p;
            req = testRequest p;
            r1 = r\<lparr>page := p\<lparr>messages := messages p @ [userMessage p], inputMessage := []\<rparr>\<rparr>;
            (res, b) = tw (backend r1) sid req;
            r2 = r1\<lparr>backend := b, sent := sent r1 @ [PostTest sid req]\<rparr>
        in case res of
             Inl e \<Rightarrow> addMessage (errorMessage e) r2
           | Inr result \<Rightarrow>
               let r3 = addMessage (assistantMessage result)
                          (setConversationHistory (new_history result) r2)
               in if requires_tool_execution result \<and> length (tool_calls result) > 0
                  then (case executeTools ex sid (toolRequest p result) (tool_calls result) r3 of
                          (None, r4) \<Rightarrow> r4
                        | (Some e, r4) \<Rightarrow> addMessage (errorMessage e) r4)
                  else r3)"

text \<open>
  The state of a run when the first response has arrived: the user's message and the
  assistant's message are shown, the input is cleared, the history is the response's.
\<close>

definition afterResponse :: "'b run \<Rightarrow> 'b \<Rightarrow> TestMessageResponse \<Rightarrow> 'b run" where
  "afterResponse r b result =
     addMessage (assistantMessage result) (setConversationHistory (new_history result)
       (r\<lparr>page := (page r)\<lparr>messages := messages (page r) @ [userMessage (page r)],
                             inputMessage := []\<rparr>,
          backend := b,
          sent := sent r @ [PostTest (primaryServerId (page r)) (testRequest (page r))]\<rparr>))"

text \<open>Observations on a run: the requests of each kind, in the order sent.\<close>

fun executeRequests :: "request list \<Rightarrow> ToolExecutionRequest list" where
  "executeRequests [] = []"
| "executeRequests (PostExecuteTool sid q # rs) = q # executeRequests rs"
| "executeRequests (PostTest sid q # rs) = executeRequests rs"



text \<open>
  The deployed servers as the page lists them, and \<^verbatim>\<open>totalToolCount\<close>:
  \<^verbatim>\<open>selectedServers.reduce((sum, server) => sum + (server.selected_endpoints_count || 0), 0)\<close>
  over \<^verbatim>\<open>allServers.filter(s => selectedServerIds.includes(s.id))\<close>. A missing count is
  \<open>None\<close>.
\<close>

record ServerInfo =
  server_id :: string
  server_name :: string
  selected_endpoints_count :: "nat option"

definition selectedServers :: "ServerInfo list \<Rightarrow> string list \<Rightarrow> ServerInfo list" where
  "selectedServers allServers ids = filter (\<lambda>s. server_id s \<in> set ids) allServers"

definition totalToolCount :: "ServerInfo list \<Rightarrow> string list \<Rightarrow> nat" where
  "totalToolCount allServers ids =
     foldl (\<lambda>sum server. sum + (case selected_endpoints_count server of None \<Rightarrow> 0 | Some n \<Rightarrow> n))
       0 (selectedServers allServers ids)"

section \<open>The core behind the pages\<close>

text \<open>
  The tool compiler, the server registry and the toolset composer run in the back end
  (\<^verbatim>\<open>backend/app/services\<close>), which the front-end sources call but do not contain. They
  are modelled here from the specification, on the front end's own types where it declares
  them.
\<close>

text \<open>
  Modelled from the spec: the kinds of the error taxonomy (section 7) that the compiler and
  the composer raise.
\<close>

datatype error =
  ConfigurationError
| UnknownServerError
| ServerInactiveError

text \<open>
  Modelled from the spec: one entry of a tool's input contract (section 3), the type, the
  \<open>required\<close> flag and the description of a parameter.
\<close>

record ContractEntry =
  entry_type :: string
  entry_required :: bool
  entry_description :: string

text \<open>
  Modelled from the spec: the type \<^verbatim>\<open>ToolDefinition\<close> of section 3, a name, a description
  and the input contract, one entry per parameter name, in the order of the parameters.
\<close>

record ToolDefinition =
  tool_name :: string
  tool_description :: string
  inputContract :: "(string \<times> ContractEntry) list"

subsection \<open>Tool compiler\<close>

text \<open>
  The \<^verbatim>\<open>EndpointDescriptor\<close> of the specification is the front end's
  \<^verbatim>\<open>EndpointConfig\<close>: \<open>selected\<close> is \<open>is_selected\<close>, \<open>toolName\<close> is
  \<open>mcp_tool_name\<close>, \<open>toolDescription\<close> is \<open>mcp_description\<close>; in a parameter,
  \<open>declaredRequired\<close> is \<open>required\<close> and \<open>userRequired\<close> is \<open>user_required\<close>.
\<close>

definition parametersOf :: "EndpointConfig \<Rightarrow> ParameterConfigItem list" where
  "parametersOf d = (case parameter_configurations d of None \<Rightarrow> [] | Some ps \<Rightarrow> ps)"

text \<open>
  Modelled from the spec: the contract entry of one parameter (section 4.1), whose
  \<open>required\<close> field is \<open>userRequired\<close>; the compiler itself is missing from the sources.
\<close>

definition contractEntry :: "ParameterConfigItem \<Rightarrow> string \<times> ContractEntry" where
  "contractEntry p =
     (name p, \<lparr>entry_type = ptype p, entry_required = user_required p,
               entry_description = description p\<rparr>)"

text \<open>
  Modelled from the spec: \<^verbatim>\<open>compile(EndpointDescriptor) -> ToolDefinition | Error\<close> of
  section 4.1, missing from the sources. It fails with \<^verbatim>\<open>ConfigurationError\<close> if
  \<open>selected\<close> is true and \<open>toolDescription\<close> is empty, or if a parameter lacks a
  description. When \<open>toolName\<close> is unset the name is the default that the front end
  computes (\<open>toolNameShown\<close>), the only code for it in the sources; the disambiguation of
  colliding default names needs the other tools and is left out.
\<close>

definition compile :: "EndpointConfig \<Rightarrow> error + ToolDefinition" where
  "compile d =
     (if is_selected d \<and> \<not> truthy (mcp_description d) then Inl ConfigurationError
      else if list_ex (\<lambda>p. description p = []) (parametersOf d) then Inl ConfigurationError
      else Inr \<lparr>tool_name = toolNameShown d,
                tool_description = orElse (mcp_description d) [],
                inputContract = map contractEntry (parametersOf d)\<rparr>)"

subsection \<open>Server registry\<close>




subsection \<open>Toolset composer\<close>











section \<open>Example data\<close>


definition limitParam :: ParameterConfigItem where
  "limitParam =
     \<lparr>name = ''limit'', ptype = ''integer'', location = Query,
      description = ''Maximum number of results'', required = False, user_required = True,
      deprecated = False\<rparr>"

definition listOrders :: EndpointConfig where
  "listOrders =
     \<lparr>is_selected = True, mcp_tool_name = None,
      mcp_description = Some ''List the orders of a customer'',
      parameter_configurations = Some [limitParam],
      id = ''e2'', http_method = ''GET'', path = ''/orders''\<rparr>"



definition examplePage :: Page where
  "examplePage =
     \<lparr>selectedServerIds = [''srv-1''], messages = [], inputMessage = ''list users'',
      conversationHistory = [], providerChoice = Anthropic,
      anthropicModel = ''claude-3-haiku-20240307'', anthropicApiKey = [],
      openaiModel = ''gpt-4o'', openaiApiKey = [],
      openaiBaseUrl = ''https://api.openai.com/v1'', authorizationInput = []\<rparr>"

definition blankPage :: Page where
  "blankPage = examplePage\<lparr>inputMessage := ''  ''\<rparr>"

definition noServerPage :: Page where
  "noServerPage = examplePage\<lparr>selectedServerIds := []\<rparr>"

definition start :: "Page \<Rightarrow> nat run" where
  "start p = \<lparr>backend = 0, page = p, sent = []\<rparr>"

definition call1 :: ToolCall where
  "call1 = \<lparr>call_id = ''call_1'', call_name = ''get_user'', input = JObj [(''user_id'', JNum 1)]\<rparr>"

definition call2 :: ToolCall where
  "call2 = \<lparr>call_id = ''call_2'', call_name = ''get_user'', input = JObj [(''user_id'', JNum 2)]\<rparr>"

definition someUsage :: Usage where
  "someUsage = \<lparr>input_tokens = 150, output_tokens = 80\<rparr>"

text \<open>Back ends whose state counts the requests received.\<close>

definition asksTwoTools :: "nat testWithAI" where
  "asksTwoTools b sid q =
     (Inr \<lparr>response = [], new_history = [JStr ''turn 1''], stop_reason = ''tool_use'',
           usage = someUsage, tool_calls = [call1, call2], requires_tool_execution = True\<rparr>,
      Suc b)"

definition asksOneTool :: "nat testWithAI" where
  "asksOneTool b sid q =
     (Inr \<lparr>response = ''Looking it up'', new_history = [JStr ''turn 1''],
           stop_reason = ''tool_use'', usage = someUsage, tool_calls = [call1],
           requires_tool_execution = True\<rparr>,
      Suc b)"

definition rejects :: "nat executeTool" where
  "rejects b sid q = (Inl \<lparr>detail = Some ''upstream down'', error_message = None\<rparr>, Suc b)"

definition answers :: "nat executeTool" where
  "answers b sid q =
     (Inr \<lparr>response = ''Done'', new_history = [JStr ''turn 2''], stop_reason = ''end_turn'',
           usage = someUsage, tool_execution_result = JObj [(''name'', JStr ''Ada'')],
           additional_tool_calls = []\<rparr>,
      Suc b)"

definition asksAgain :: "nat executeTool" where
  "asksAgain b sid q =
     (Inr \<lparr>response = ''One more lookup is needed'', new_history = [JStr ''turn 2''],
           stop_reason = ''tool_use'', usage = someUsage,
           tool_execution_result = JObj [(''name'', JStr ''Ada'')],
           additional_tool_calls = [call2]\<rparr>,
      Suc b)"









section \<open>Lemmas on strings\<close>

lemmas ascii_defs = asciiUpper_def asciiLower_def asciiDigit_def



















lemma trim_empty: "trim s = [] \<longleftrightarrow> list_all isWhiteSpace s"
proof
  assume "trim s = []"
  then have a: "dropWhile isWhiteSpace (rev (dropWhile isWhiteSpace s)) = []"
    by (simp add: trim_def)
  have "dropWhile isWhiteSpace s = []"
  proof (rule ccontr)
    assume n: "dropWhile isWhiteSpace s \<noteq> []"
    then have "\<not> isWhiteSpace (hd (dropWhile isWhiteSpace s))"
      by (rule hd_dropWhile)
    moreover have "hd (dropWhile isWhiteSpace s) \<in> set (rev (dropWhile isWhiteSpace s))"
      using n by simp
    ultimately show False
      using a by (auto simp: dropWhile_eq_Nil_conv)
  qed
  then show "list_all isWhiteSpace s"
    by (simp add: dropWhile_eq_Nil_conv list_all_iff)
next
  assume "list_all isWhiteSpace s"
  then have d: "dropWhile isWhiteSpace s = []"
    by (simp add: list_all_iff)
  show "trim s = []"
    unfolding trim_def d by simp
qed

section \<open>Lemmas on the configuration page\<close>

text \<open>
  The check box of a parameter changes \<open>user_required\<close> and nothing else, and the sentence
  under it follows \<open>user_required\<close> alone.
\<close>

lemma onCheckedChange_frame:
  "user_required (onCheckedChange p b) = b \<and> required (onCheckedChange p b) = required p
   \<and> name (onCheckedChange p b) = name p \<and> description (onCheckedChange p b) = description p"
  by (simp add: onCheckedChange_def)

lemma toggle_sets_user_required:
  "map (\<lambda>q. (name q, user_required q))
     (case parameter_configurations (handleParameterChange e (onCheckedChange p b)) of
        None \<Rightarrow> [] | Some ps \<Rightarrow> ps)
   = map (\<lambda>q. (name q, if name q = name p then b else user_required q))
       (case parameter_configurations e of None \<Rightarrow> [] | Some ps \<Rightarrow> ps)"
  by (cases "parameter_configurations e")
    (simp_all add: handleParameterChange_def onCheckedChange_def)

lemma mandatoryText_required:
  "mandatoryText p = ''This parameter will be required in the generated MCP tool''
     \<longleftrightarrow> user_required p"
  by (simp add: mandatoryText_def)

lemma toBatchUpdate_parameters:
  "parameter_configurations (toBatchUpdate c) = parameter_configurations c"
  by (simp add: toBatchUpdate_def)

text \<open>A configuration with nothing to complain about is posted whole, in one request.\<close>

lemma handleSave_posts:
  assumes "specId = Some sid" "sid \<noteq> []"
    and "list_all (\<lambda>c. \<not> is_selected c \<or> truthy (mcp_description c)) localConfigs"
  shows "posted (handleSave batchUpdate specId localConfigs r)
           = posted r @ [map toBatchUpdate localConfigs]"
proof -
  from assms(3) have "filter (\<lambda>c. is_selected c \<and> \<not> truthy (mcp_description c)) localConfigs = []"
    by (auto simp: filter_empty_conv list_all_iff)
  with assms(1,2) show ?thesis
    by (cases "batchUpdate sid (map toBatchUpdate localConfigs)")
      (simp_all add: handleSave_def Let_def)
qed

section \<open>Lemmas on the AI testing page\<close>

lemma sent_addMessage [simp]: "sent (addMessage m r) = sent r"
  by (simp add: addMessage_def)

lemma sent_setConversationHistory [simp]: "sent (setConversationHistory h r) = sent r"
  by (simp add: setConversationHistory_def)

lemma backend_addMessage [simp]: "backend (addMessage m r) = backend r"
  by (simp add: addMessage_def)

lemma backend_setConversationHistory [simp]: "backend (setConversationHistory h r) = backend r"
  by (simp add: setConversationHistory_def)

lemma messages_addMessage [simp]: "messages (page (addMessage m r)) = messages (page r) @ [m]"
  by (simp add: addMessage_def)

lemma messages_setConversationHistory [simp]:
  "messages (page (setConversationHistory h r)) = messages (page r)"
  by (simp add: setConversationHistory_def)



text \<open>Messages are only ever appended: what the page has shown stays as it was.\<close>

lemma executeTools_messages:
  "\<exists>ms. messages (page (snd (executeTools ex sid mk tcs r))) = messages (page r) @ ms"
proof (induction tcs arbitrary: r)
  case Nil
  then show ?case by simp
next
  case (Cons tc tcs)
  obtain res b where e: "ex (backend r) sid (mk tc) = (res, b)"
    by (cases "ex (backend r) sid (mk tc)")
  show ?case
  proof (cases res)
    case (Inl err)
    with e show ?thesis by simp
  next
    case (Inr resp)
    let ?r' = "addMessage (finalMessage resp) (setConversationHistory (new_history resp)
        (r\<lparr>backend := b, sent := sent r @ [PostExecuteTool sid (mk tc)]\<rparr>))"
    from Cons.IH [of ?r'] obtain ms where
      "messages (page (snd (executeTools ex sid mk tcs ?r'))) = messages (page ?r') @ ms"
      by blast
    with e Inr show ?thesis by simp
  qed
qed



text \<open>The three ways \<^verbatim>\<open>handleSendMessage\<close> can end once the first response has arrived.\<close>

lemma handleSendMessage_cases:
  assumes "\<not> (trim (inputMessage (page r)) = [] \<or> length (selectedServerIds (page r)) = 0)"
    and "tw (backend r) (primaryServerId (page r)) (testRequest (page r)) = (Inr result, b)"
  shows "handleSendMessage tw ex r = afterResponse r b result
     \<or> handleSendMessage tw ex r =
         snd (executeTools ex (primaryServerId (page r)) (toolRequest (page r) result)
                (tool_calls result) (afterResponse r b result))
     \<or> (\<exists>e. handleSendMessage tw ex r = addMessage (errorMessage e)
         (snd (executeTools ex (primaryServerId (page r)) (toolRequest (page r) result)
                (tool_calls result) (afterResponse r b result))))"
  using assms
  by (cases "executeTools ex (primaryServerId (page r)) (toolRequest (page r) result)
                (tool_calls result) (afterResponse r b result)")
    (auto simp add: handleSendMessage_def afterResponse_def Let_def split: option.splits)




lemma handleSendMessage_keeps_messages:
  "\<exists>ms. messages (page (handleSendMessage tw ex r)) = messages (page r) @ ms"
proof (cases "trim (inputMessage (page r)) = [] \<or> length (selectedServerIds (page r)) = 0")
  case True
  then show ?thesis
    by (simp add: handleSendMessage_def Let_def)
next
  case False
  obtain res b where t: "tw (backend r) (primaryServerId (page r)) (testRequest (page r)) = (res, b)"
    by (cases "tw (backend r) (primaryServerId (page r)) (testRequest (page r))")
  show ?thesis
  proof (cases res)
    case (Inl e)
    with False t show ?thesis
      by (simp add: handleSendMessage_def Let_def)
  next
    case (Inr result)
    let ?out = "executeTools ex (primaryServerId (page r)) (toolRequest (page r) result)
        (tool_calls result) (afterResponse r b result)"
    have a: "messages (page (afterResponse r b result)) =
        messages (page r) @ [userMessage (page r), assistantMessage result]"
      by (simp add: afterResponse_def)
    from executeTools_messages [where ex = ex and sid = "primaryServerId (page r)"
        and mk = "toolRequest (page r) result" and tcs = "tool_calls result"
        and r = "afterResponse r b result"]
    obtain ms where "messages (page (snd ?out)) = messages (page (afterResponse r b result)) @ ms"
      by blast
    with a have b: "messages (page (snd ?out)) =
        messages (page r) @ ([userMessage (page r), assistantMessage result] @ ms)"
      by simp
    from handleSendMessage_cases [OF False, of tw result b ex] t Inr
    consider "handleSendMessage tw ex r = afterResponse r b result"
      | "handleSendMessage tw ex r = snd ?out"
      | e where "handleSendMessage tw ex r = addMessage (errorMessage e) (snd ?out)"
      by blast
    then show ?thesis
    proof cases
      case 1
      with a show ?thesis by simp
    next
      case 2
      with b show ?thesis by simp
    next
      case 3
      with b have "messages (page (handleSendMessage tw ex r)) =
          messages (page r) @ ([userMessage (page r), assistantMessage result] @ ms @ [errorMessage e])"
        by simp
      then show ?thesis by blast
    qed
  qed
qed

section \<open>Lemmas on the composer\<close>







text \<open>
  The number the AI testing page shows as the tools available is the plain sum of the counts
  of the selected servers; tool names play no part in it.
\<close>

lemma totalToolCount_sum:
  "totalToolCount allServers ids =
     sum_list (map (\<lambda>s. case selected_endpoints_count s of None \<Rightarrow> 0 | Some n \<Rightarrow> n)
       (selectedServers allServers ids))"
proof -
  have "foldl (\<lambda>sum server. sum + f server) a xs = a + sum_list (map f xs)"
    for f :: "ServerInfo \<Rightarrow> nat" and a xs
    by (induction xs arbitrary: a) simp_all
  then show ?thesis
    by (simp add: totalToolCount_def)
qed

section \<open>Lemmas on the compiler\<close>

lemma parametersOf_declared:
  "parametersOf (d\<lparr>parameter_configurations :=
      map_option (map (\<lambda>p. p\<lparr>required := f p\<rparr>)) (parameter_configurations d)\<rparr>)
   = map (\<lambda>p. p\<lparr>required := f p\<rparr>) (parametersOf d)"
  by (cases "parameter_configurations d") (simp_all add: parametersOf_def)

lemma contractEntry_declared: "contractEntry (p\<lparr>required := b\<rparr>) = contractEntry p"
  by (simp add: contractEntry_def)

lemma compile_declared:
  "compile (d\<lparr>parameter_configurations :=
      map_option (map (\<lambda>p. p\<lparr>required := f p\<rparr>)) (parameter_configurations d)\<rparr>) = compile d"
proof -
  let ?d = "d\<lparr>parameter_configurations :=
      map_option (map (\<lambda>p. p\<lparr>required := f p\<rparr>)) (parameter_configurations d)\<rparr>"
  have p: "parametersOf ?d = map (\<lambda>p. p\<lparr>required := f p\<rparr>) (parametersOf d)"
    by (rule parametersOf_declared)
  have "list_ex (\<lambda>p. description p = []) (parametersOf ?d) =
      list_ex (\<lambda>p. description p = []) (parametersOf d)"
    unfolding p by (induction "parametersOf d") (simp_all add: list_ex_iff)
  moreover have "map contractEntry (parametersOf ?d) = map contractEntry (parametersOf d)"
    unfolding p by (simp add: contractEntry_declared)
  moreover have "toolNameShown ?d = toolNameShown d"
    by (cases "mcp_tool_name d") (simp_all add: toolNameShown_def)
  ultimately show ?thesis
    by (simp add: compile_def)
qed

text \<open>
  The compiler of the specification refuses a selected descriptor without a description.
\<close>

lemma compile_requires_description:
  "is_selected d \<Longrightarrow> \<not> truthy (mcp_description d) \<Longrightarrow> compile d = Inl ConfigurationError"
  by (simp add: compile_def)

lemmas page_defs =
  handleSendMessage_def primaryServerId_def testRequest_def toolRequest_def modelOf_def
  apiKeyOf_def baseUrlOf_def orUndefined_def userMessage_def assistantMessage_def
  finalMessage_def errorMessage_def addMessage_def setConversationHistory_def trim_def
  isWhiteSpace_def

lemmas example_defs =
  examplePage_def blankPage_def noServerPage_def start_def call1_def call2_def someUsage_def asksTwoTools_def
  asksOneTool_def rejects_def answers_def asksAgain_def



lemmas name_defs =
  toolNameShown_def placeholderToolName_def specDefaultToolName_def toLowerCase_def
  toLowerCaseChar_def replaceNonAlnum_def isAlnum_def isIdentStart_def isIdentChar_def
  hasNoUpper_def ascii_defs

section \<open>The agent loop of the AI testing page\<close>




text \<open>
  Claim C2 at a failing input. The first response asks for \<open>call1\<close>; the response to its
  execution carries \<open>call2\<close> in \<^verbatim>\<open>additional_tool_calls\<close>. The handler never reads that
  field: \<open>call2\<close> is not sent to the back end, and no message shows it. The tool calls of
  the first response are both shown (\<open>toolCalls\<close> of the assistant's message) and executed.
\<close>

theorem additional_tool_calls_are_dropped:
  "fst (asksAgain 1 ''srv-1''
          (toolRequest examplePage
             \<lparr>response = ''Looking it up'', new_history = [JStr ''turn 1''],
              stop_reason = ''tool_use'', usage = someUsage, tool_calls = [call1],
              requires_tool_execution = True\<rparr> call1)) =
     Inr \<lparr>response = ''One more lookup is needed'', new_history = [JStr ''turn 2''],
          stop_reason = ''tool_use'', usage = someUsage,
          tool_execution_result = JObj [(''name'', JStr ''Ada'')],
          additional_tool_calls = [call2]\<rparr>
   \<and> map tool_call
        (executeRequests (sent (handleSendMessage asksOneTool asksAgain (start examplePage))))
       = [call1]
   \<and> map toolCalls (messages (page (handleSendMessage asksOneTool asksAgain (start examplePage))))
       = [None, Some [call1], None]
   \<and> map content (messages (page (handleSendMessage asksOneTool asksAgain (start examplePage))))
       = [''list users'', ''Looking it up'', ''One more lookup is needed'']"
  by (simp add: page_defs example_defs Let_def)




text \<open>
  Claim C10. Submitting an input that is empty or white space only, or submitting with no
  server selected, changes nothing: the run is the same afterwards, so no request was sent
  and the messages, the conversation history and the input are as before.
\<close>

theorem blank_submission_is_noop:
  "list_all isWhiteSpace (inputMessage (page r)) \<or> selectedServerIds (page r) = []
   \<Longrightarrow> handleSendMessage tw ex r = r"
  by (auto simp: handleSendMessage_def trim_empty Let_def)

theorem blank_submission_is_noop_witness:
  "list_all isWhiteSpace (inputMessage (page (start blankPage)))
   \<and> handleSendMessage asksTwoTools answers (start blankPage) = start blankPage
   \<and> sent (handleSendMessage asksTwoTools answers (start blankPage)) = []
   \<and> selectedServerIds (page (start noServerPage)) = []
   \<and> handleSendMessage asksTwoTools answers (start noServerPage) = start noServerPage"
  using blank_submission_is_noop [of "start blankPage" asksTwoTools answers]
    blank_submission_is_noop [of "start noServerPage" asksTwoTools answers]
  by (simp add: start_def blankPage_def noServerPage_def examplePage_def isWhiteSpace_def)

section \<open>The configuration page\<close>







section \<open>The compiler and the composer\<close>

text \<open>
  Claim C3. For every parameter of a compiled tool, the \<open>required\<close> flag of its entry in
  the input contract is the parameter's \<open>user_required\<close>, entry by entry in the order of
  the parameters; the declared flag \<open>required\<close> has no influence: the compiler gives the
  same tool whatever the declared flags are.
\<close>

theorem required_is_user_required:
  assumes "compile d = Inr t"
  shows "map (\<lambda>(n, c). (n, entry_required c)) (inputContract t)
           = map (\<lambda>p. (name p, user_required p)) (parametersOf d)
       \<and> compile (d\<lparr>parameter_configurations :=
            map_option (map (\<lambda>p. p\<lparr>required := f p\<rparr>)) (parameter_configurations d)\<rparr>)
           = Inr t"
proof -
  from assms have "inputContract t = map contractEntry (parametersOf d)"
    by (auto simp: compile_def split: if_splits)
  then have "map (\<lambda>(n, c). (n, entry_required c)) (inputContract t)
           = map (\<lambda>p. (name p, user_required p)) (parametersOf d)"
    by (simp add: contractEntry_def)
  with assms show ?thesis
    by (simp add: compile_declared)
qed

theorem required_is_user_required_witness:
  "required limitParam = False \<and> user_required limitParam = True
   \<and> compile listOrders =
       Inr \<lparr>tool_name = ''get__orders'', tool_description = ''List the orders of a customer'',
            inputContract =
              [(''limit'', \<lparr>entry_type = ''integer'', entry_required = True,
                             entry_description = ''Maximum number of results''\<rparr>)]\<rparr>
   \<and> map (\<lambda>(n, c). (n, entry_required c))
        (inputContract
           \<lparr>tool_name = ''get__orders'', tool_description = ''List the orders of a customer'',
            inputContract =
              [(''limit'', \<lparr>entry_type = ''integer'', entry_required = True,
                             entry_description = ''Maximum number of results''\<rparr>)]\<rparr>)
       = [(''limit'', True)]"
proof -
  have c: "compile listOrders =
      Inr \<lparr>tool_name = ''get__orders'', tool_description = ''List the orders of a customer'',
           inputContract =
             [(''limit'', \<lparr>entry_type = ''integer'', entry_required = True,
                            entry_description = ''Maximum number of results''\<rparr>)]\<rparr>"
    by (simp add: compile_def parametersOf_def contractEntry_def name_defs listOrders_def
        limitParam_def)
  have p: "parametersOf listOrders = [limitParam]"
    by (simp add: parametersOf_def listOrders_def)
  from required_is_user_required [OF c, THEN conjunct1] show ?thesis
    by (simp add: c p limitParam_def)
qed







end
